theory Spec2Isabelle
  imports Main "HOL-Library.Sublist" "HOL-Library.Word"
begin

unbundle bit_operations_syntax

section \<open>Strings\<close>

text \<open>
  Go strings are byte sequences; they are modelled as \<open>string\<close> (a list of characters).
  \<open>strings.HasPrefix s p\<close> is \<^term>\<open>prefix p s\<close> and \<open>strings.Contains s sub\<close>
  is \<^term>\<open>sublist sub s\<close>, both of the library and both executable.
\<close>

definition strings_HasPrefix :: "string \<Rightarrow> string \<Rightarrow> bool" where
  "strings_HasPrefix s p = prefix p s"

definition strings_TrimPrefix :: "string \<Rightarrow> string \<Rightarrow> string" where
  "strings_TrimPrefix s p = (if prefix p s then drop (length p) s else s)"

definition strings_Contains :: "string \<Rightarrow> string \<Rightarrow> bool" where
  "strings_Contains s sub = sublist sub s"

text \<open>
  \<open>strings.IndexByte s c\<close>: the index of the first \<open>c\<close> in \<open>s\<close>, or \<open>-1\<close>.
\<close>

fun strings_IndexByte :: "string \<Rightarrow> char \<Rightarrow> int" where
  "strings_IndexByte [] c = -1"
| "strings_IndexByte (x # xs) c =
     (if x = c then 0
      else (let i = strings_IndexByte xs c in if i = -1 then -1 else i + 1))"

text \<open>
  \<open>strings.Split s sep\<close> for a one-byte separator: the pieces between the separators;
  the empty string gives one empty piece.
\<close>

fun strings_Split :: "string \<Rightarrow> char \<Rightarrow> string list" where
  "strings_Split [] sep = [[]]"
| "strings_Split (x # xs) sep =
     (if x = sep then [] # strings_Split xs sep
      else (case strings_Split xs sep of
              [] \<Rightarrow> [[x]]
            | w # ws \<Rightarrow> (x # w) # ws))"

definition slices_Contains :: "string list \<Rightarrow> string \<Rightarrow> bool" where
  "slices_Contains xs x = (x \<in> set xs)"

section \<open>The data of \<open>pkg/elfinfo\<close> and of the build information\<close>

text \<open>
  \<open>elf.Symbol\<close>: only the two fields the validator reads. \<open>elf.SectionIndex\<close> is
  Go's \<open>int\<close>; the comparisons below never overflow, so it is an \<open>int\<close> here.
\<close>

record Symbol =
  Name :: string
  Section :: int

record ElfInfo =
  IsElf :: bool
  IsStatic :: bool
  Sections :: "string list"
  Symbols :: "Symbol list"

text \<open>\<open>debug.BuildSetting\<close> and the two fields of \<open>buildinfo.BuildInfo\<close> that are read.\<close>

record BuildSetting =
  Key :: string
  Value :: string

record BuildInfo =
  GoVersion :: string
  Settings :: "BuildSetting list"

text \<open>
  The section indices of \<open>debug/elf\<close>: the reserved range starts at \<open>SHN_LORESERVE\<close>
  and holds the indices of absolute and of common symbols; the index of an undefined
  symbol is 0.
\<close>

definition SHN_UNDEF :: int where
  "SHN_UNDEF = 0"

definition SHN_LORESERVE :: int where
  "SHN_LORESERVE = 0xff00"

definition SHN_ABS :: int where
  "SHN_ABS = 0xfff1"

definition SHN_COMMON :: int where
  "SHN_COMMON = 0xfff2"

text \<open>
  A run-time panic of Go is a value: indexing a slice outside \<open>0 \<le> i < len\<close> panics
  with the index and the length.
\<close>

datatype panic = IndexOutOfRange int nat

definition index_at :: "'a list \<Rightarrow> int \<Rightarrow> panic + 'a" where
  "index_at xs i =
     (if 0 \<le> i \<and> i < int (length xs) then Inr (xs ! nat i)
      else Inl (IndexOutOfRange i (length xs)))"

section \<open>The semantic-version library\<close>

text \<open>
  \<open>github.com/Masterminds/semver/v3\<close> is not part of the repository. It is a parameter
  of the model: \<open>NewVersion s\<close> is the parsed version or the library's error message, and
  \<open>Check c v\<close> says whether the constraint compiled from the text \<open>c\<close> accepts \<open>v\<close>
  (\<open>newSemverConstraint\<close> panics on a text that is no constraint, when the package is
  initialised and so before any call modelled here).
\<close>

record 'v semver =
  NewVersion :: "string \<Rightarrow> string + 'v"
  Check :: "string \<Rightarrow> 'v \<Rightarrow> bool"

record versionConstrainedReqs =
  versions :: string
  requirements :: "string list"

definition requiredSymbolsForGoVersions :: "versionConstrainedReqs list" where
  "requiredSymbolsForGoVersions =
     [\<lparr>versions = ''>= 1.23'',
       requirements = [''vendor/github.com/golang-fips/openssl/v2.dlopen'']\<rparr>]"

section \<open>\<open>internal/validation\<close>: the checks on one binary\<close>

text \<open>
  The errors the checks append, one constructor for each \<open>fmt.Errorf\<close> of the source with
  the values it formats.
\<close>

datatype 'v reason =
    StaticallyLinked
  | GoVersionParseFailure string string
  | NotCgoEnabled
  | MissingCgoInit
  | UnsupportedGoVersion 'v
  | MissingRequiredSymbol string
  | ForbiddenBuildTag string
  | MissingGoExperiment

text \<open>
  \<open>usesCrypto\<close>: the loop over \<open>info.Symbols\<close>. The debug callback only prints and is
  left out.
\<close>

fun usesCrypto_loop :: "string list \<Rightarrow> Symbol list \<Rightarrow> panic + bool" where
  "usesCrypto_loop secs [] = Inr False"
| "usesCrypto_loop secs (symb # syms) =
     (if SHN_LORESERVE \<le> Section symb \<or> int (length secs) \<le> Section symb
      then usesCrypto_loop secs syms
      else (case index_at secs (Section symb) of
              Inl p \<Rightarrow> Inl p
            | Inr section \<Rightarrow>
                if strings_Contains (Name symb) ''crypto'' \<and> \<not> slices_Contains [''.bss''] section
                then Inr True
                else usesCrypto_loop secs syms))"

definition usesCrypto :: "ElfInfo \<Rightarrow> panic + bool" where
  "usesCrypto info = usesCrypto_loop (Sections info) (Symbols info)"

definition validateNotStaticallyLinked :: "ElfInfo \<Rightarrow> 'v reason list" where
  "validateNotStaticallyLinked info = (if IsStatic info then [StaticallyLinked] else [])"

fun validateCgoEnabled_loop :: "BuildSetting list \<Rightarrow> 'v reason list" where
  "validateCgoEnabled_loop [] = [NotCgoEnabled]"
| "validateCgoEnabled_loop (bs # bss) =
     (if Key bs = ''CGO_ENABLED'' \<and> Value bs = ''1'' then []
      else validateCgoEnabled_loop bss)"

definition validateCgoEnabled :: "BuildInfo \<Rightarrow> 'v reason list" where
  "validateCgoEnabled bi = validateCgoEnabled_loop (Settings bi)"

fun validateCgoInit_loop :: "string list \<Rightarrow> Symbol list \<Rightarrow> panic + 'v reason list" where
  "validateCgoInit_loop secs [] = Inr [MissingCgoInit]"
| "validateCgoInit_loop secs (symb # syms) =
     (if SHN_LORESERVE \<le> Section symb \<or> int (length secs) \<le> Section symb
      then validateCgoInit_loop secs syms
      else (case index_at secs (Section symb) of
              Inl p \<Rightarrow> Inl p
            | Inr section \<Rightarrow>
                if (Name symb = ''_cgo_init'' \<or> Name symb = ''_cgo_topofstack'')
                   \<and> \<not> slices_Contains [''.bss''] section
                then Inr []
                else validateCgoInit_loop secs syms))"

definition validateCgoInit :: "ElfInfo \<Rightarrow> panic + 'v reason list" where
  "validateCgoInit info = validateCgoInit_loop (Sections info) (Symbols info)"

text \<open>
  \<open>validateGoSymbols\<close>: the first entry of the table whose constraint accepts the
  version gives the required symbols (none when no entry does); then, for each required
  symbol, the inner loop over the symbols.
\<close>

fun selectRequirements :: "'v semver \<Rightarrow> versionConstrainedReqs list \<Rightarrow> 'v \<Rightarrow> string list" where
  "selectRequirements lib [] goVersion = []"
| "selectRequirements lib (req # reqs) goVersion =
     (if Check lib (versions req) goVersion then requirements req
      else selectRequirements lib reqs goVersion)"

fun symbolFound :: "string list \<Rightarrow> string \<Rightarrow> Symbol list \<Rightarrow> panic + bool" where
  "symbolFound secs rs [] = Inr False"
| "symbolFound secs rs (symb # syms) =
     (if SHN_LORESERVE \<le> Section symb \<or> int (length secs) \<le> Section symb
      then symbolFound secs rs syms
      else (case index_at secs (Section symb) of
              Inl p \<Rightarrow> Inl p
            | Inr section \<Rightarrow>
                if Name symb = rs \<and> \<not> slices_Contains [''.bss''] section
                then Inr True
                else symbolFound secs rs syms))"

fun requiredSymbols_loop :: "ElfInfo \<Rightarrow> string list \<Rightarrow> panic + 'v reason list" where
  "requiredSymbols_loop info [] = Inr []"
| "requiredSymbols_loop info (rs # rss) =
     (case symbolFound (Sections info) rs (Symbols info) of
        Inl p \<Rightarrow> Inl p
      | Inr found \<Rightarrow>
          (case requiredSymbols_loop info rss of
             Inl p \<Rightarrow> Inl p
           | Inr errs \<Rightarrow> Inr ((if found then [] else [MissingRequiredSymbol rs]) @ errs)))"

definition validateGoSymbols :: "'v semver \<Rightarrow> ElfInfo \<Rightarrow> 'v \<Rightarrow> panic + 'v reason list" where
  "validateGoSymbols lib info goVersion =
     (let requiredSymbols = selectRequirements lib requiredSymbolsForGoVersions goVersion
      in if length requiredSymbols = 0 then Inr [UnsupportedGoVersion goVersion]
         else requiredSymbols_loop info requiredSymbols)"

text \<open>
  \<open>validateGoTagsAndExperiment\<close>: the tags of the first \<open>-tags\<close> setting, the denied
  tags among them, and one error for each \<open>GOEXPERIMENT\<close> setting without the token.
\<close>

fun buildTags_loop :: "BuildSetting list \<Rightarrow> string list" where
  "buildTags_loop [] = []"
| "buildTags_loop (bs # bss) =
     (if Key bs = ''-tags'' then strings_Split (Value bs) (CHR '','')
      else buildTags_loop bss)"

fun deniedTags_loop :: "string list \<Rightarrow> string list \<Rightarrow> 'v reason list" where
  "deniedTags_loop buildTags [] = []"
| "deniedTags_loop buildTags (tag # tags) =
     (if slices_Contains buildTags tag then [ForbiddenBuildTag tag] else [])
     @ deniedTags_loop buildTags tags"

fun experiment_loop :: "BuildSetting list \<Rightarrow> 'v reason list" where
  "experiment_loop [] = []"
| "experiment_loop (bs # bss) =
     (if Key bs = ''GOEXPERIMENT'' \<and> \<not> strings_Contains (Value bs) ''strictfipsruntime''
      then [MissingGoExperiment] else [])
     @ experiment_loop bss"

definition validateGoTagsAndExperiment :: "BuildInfo \<Rightarrow> 'v reason list" where
  "validateGoTagsAndExperiment info =
     deniedTags_loop (buildTags_loop (Settings info)) [''no_openssl'']
     @ experiment_loop (Settings info)"

text \<open>
  What \<open>ValidateBinary\<close> prints after the name of the binary, and the boolean it returns.
\<close>

datatype 'v report =
    SkippedShellScript
  | SkippedReadFailure string
  | SkippedNotElf
  | SkippedNoCrypto
  | Failed "'v reason list"
  | Succeeded

text \<open>
  The text of the toolchain version handed to the parser: \<open>bi.GoVersion\<close> without a
  leading \<open>go\<close>, cut before its first space.
\<close>

definition goVersionText :: "string \<Rightarrow> string" where
  "goVersionText v =
     (let ver = strings_TrimPrefix v ''go''; i = strings_IndexByte ver (CHR '' '')
      in if i \<noteq> -1 then take (nat i) ver else ver)"

text \<open>
  The checks that follow the crypto gate, in the order in which their errors are
  appended. \<open>bi_res\<close> is what \<open>buildinfo.ReadFile\<close> returned for the file.
\<close>

definition collectErrors ::
  "'v semver \<Rightarrow> ElfInfo \<Rightarrow> string + BuildInfo \<Rightarrow> panic + 'v reason list" where
  "collectErrors lib ei bi_res =
     (let errs = validateNotStaticallyLinked ei in
      case bi_res of
        Inl err \<Rightarrow> Inr errs
      | Inr bi \<Rightarrow>
          (case NewVersion lib (goVersionText (GoVersion bi)) of
             Inl err \<Rightarrow> Inr (errs @ [GoVersionParseFailure (GoVersion bi) err])
           | Inr goVersion \<Rightarrow>
               (case validateCgoInit ei of
                  Inl p \<Rightarrow> Inl p
                | Inr cgoInit \<Rightarrow>
                    (case validateGoSymbols lib ei goVersion of
                       Inl p \<Rightarrow> Inl p
                     | Inr goSymbols \<Rightarrow>
                         Inr (errs @ validateCgoEnabled bi @ cgoInit @ goSymbols
                              @ validateGoTagsAndExperiment bi)))))"

text \<open>
  \<open>ValidateBinary\<close>. \<open>elf_res\<close> is what \<open>elfinfo.ReadFile\<close> returned for the file: an
  error message, or the \<open>ElfInfo\<close>.
\<close>

definition shellScriptMagic :: string where
  "shellScriptMagic = ''bad magic number '' @ [CHR 0x27] @ ''[35 33''"

definition ValidateBinary ::
  "'v semver \<Rightarrow> string + ElfInfo \<Rightarrow> string + BuildInfo \<Rightarrow> panic + ('v report \<times> bool)" where
  "ValidateBinary lib elf_res bi_res =
     (case elf_res of
        Inl err \<Rightarrow>
          if strings_HasPrefix err shellScriptMagic then Inr (SkippedShellScript, True)
          else Inr (SkippedReadFailure err, True)
      | Inr ei \<Rightarrow>
          if \<not> IsElf ei then Inr (SkippedNotElf, True)
          else (case usesCrypto ei of
                  Inl p \<Rightarrow> Inl p
                | Inr uses \<Rightarrow>
                    if \<not> uses then Inr (SkippedNoCrypto, True)
                    else (case collectErrors lib ei bi_res of
                            Inl p \<Rightarrow> Inl p
                          | Inr errs \<Rightarrow>
                              if length errs > 0 then Inr (Failed errs, False)
                              else Inr (Succeeded, True))))"

section \<open>\<open>pkg/elfinfo\<close>: reading the file\<close>

text \<open>
  What \<open>elf.Open\<close> gives, as far as \<open>ReadFile\<close> looks at it: the type of the object,
  the types of its program headers, the names of its sections, what \<open>Symbols()\<close> returns
  and what \<open>DynValue(DT_FLAGS_1)\<close> returns (each an error message or the value).
\<close>

datatype elf_Type = ET_NONE | ET_REL | ET_EXEC | ET_DYN | ET_CORE | ET_OTHER

datatype elf_ProgType = PT_INTERP | PT_OTHER

record elf_File =
  FileType :: elf_Type
  Progs :: "elf_ProgType list"
  SectionNames :: "string list"
  SymbolsResult :: "string + Symbol list"
  DynValue_FLAGS_1 :: "string + 64 word list"

definition DF_1_PIE :: "32 word" where
  "DF_1_PIE = 0x08000000"

fun isStatic_loop :: "elf_ProgType list \<Rightarrow> bool" where
  "isStatic_loop [] = True"
| "isStatic_loop (p # ps) = (if p = PT_INTERP then False else isStatic_loop ps)"

definition isStatic :: "elf_File \<Rightarrow> bool" where
  "isStatic exe = isStatic_loop (Progs exe)"

text \<open>\<open>elf.DynFlag1\<close> is a \<open>uint32\<close>: the conversion keeps the low 32 bits.\<close>

fun isPie_loop :: "64 word list \<Rightarrow> bool" where
  "isPie_loop [] = False"
| "isPie_loop (f # fs) =
     (if (ucast f :: 32 word) AND DF_1_PIE \<noteq> 0 then True else isPie_loop fs)"

definition isPie :: "elf_File \<Rightarrow> string + bool" where
  "isPie file =
     (case DynValue_FLAGS_1 file of
        Inl err \<Rightarrow> Inl err
      | Inr vals \<Rightarrow> Inr (isPie_loop vals))"

definition getSectionNames :: "elf_File \<Rightarrow> string list" where
  "getSectionNames file = SectionNames file"

text \<open>The zero \<open>ElfInfo\<close>, and the one filled from an executable image.\<close>

definition zeroElfInfo :: ElfInfo where
  "zeroElfInfo = \<lparr>IsElf = False, IsStatic = False, Sections = [], Symbols = []\<rparr>"

definition imageInfo :: "elf_File \<Rightarrow> ElfInfo" where
  "imageInfo exe =
     \<lparr>IsElf = True, IsStatic = isStatic exe, Sections = getSectionNames exe,
      Symbols = (case SymbolsResult exe of Inl err \<Rightarrow> [] | Inr syms \<Rightarrow> syms)\<rparr>"

text \<open>
  \<open>ReadFile\<close>. \<open>opened\<close> is what \<open>elf.Open\<close> returned. Where the source returns both
  the zero info and an error (the flags of a shared object cannot be read), the result is
  the error: every caller tests the error first.
\<close>

definition ReadFile :: "string + elf_File \<Rightarrow> string + ElfInfo" where
  "ReadFile opened =
     (case opened of
        Inl err \<Rightarrow> Inl err
      | Inr exe \<Rightarrow>
          (case FileType exe of
             ET_EXEC \<Rightarrow> Inr (imageInfo exe)
           | ET_DYN \<Rightarrow>
               (case isPie exe of
                  Inl err \<Rightarrow> Inl err
                | Inr pie \<Rightarrow> if \<not> pie then Inr zeroElfInfo else Inr (imageInfo exe))
           | _ \<Rightarrow> Inr zeroElfInfo))"

section \<open>\<open>internal/executor\<close> and the scan for the crypto library\<close>

text \<open>
  What running a command did: the bytes it wrote and what \<open>cmd.Run\<close> returned (nothing,
  an \<open>ExitError\<close> with its exit code, or another error).
\<close>

datatype cmd_Run = Run_nil | Run_ExitError int | Run_error string

record process =
  stdoutBytes :: string
  stderrBytes :: string
  cmd_Run :: cmd_Run

definition Execute :: "process \<Rightarrow> string \<times> string \<times> int \<times> string option" where
  "Execute cmd =
     (case cmd_Run cmd of
        Run_nil \<Rightarrow> (stdoutBytes cmd, stderrBytes cmd, 0, None)
      | Run_ExitError code \<Rightarrow> (stdoutBytes cmd, stderrBytes cmd, code, None)
      | Run_error err \<Rightarrow> (stdoutBytes cmd, stderrBytes cmd, -1, Some err))"

text \<open>
  The file system below \<open>rootPath\<close>, as \<open>findCryptoLibs\<close> sees it: for a library
  directory, what \<open>os.Lstat\<close> returns (an error or the mode bits) and what \<open>os.ReadDir\<close>
  returns (an error or the entries, each with its name and the answers of \<open>IsDir()\<close> and
  \<open>Type().IsRegular()\<close>).
\<close>

record DirEntry =
  entry_Name :: string
  entry_IsDir :: bool
  entry_IsRegular :: bool

record root_fs =
  Lstat :: "string \<Rightarrow> string + 32 word"
  ReadDir :: "string \<Rightarrow> string + DirEntry list"

definition ModeSymlink :: "32 word" where
  "ModeSymlink = push_bit 27 1"

definition libPaths :: "string list" where
  "libPaths = [''/lib64'', ''/usr/lib64'', ''/lib'', ''/usr/lib'']"

text \<open>
  The regular expression \<open>^libcrypto.*\.so($|\..*)\<close>, matched anywhere from the start of
  the name: \<open>libcrypto\<close>, then characters other than a newline, then \<open>.so\<close>, then the end
  of the name or a dot.
\<close>

fun soSuffix :: "string \<Rightarrow> bool" where
  "soSuffix [] = False"
| "soSuffix (c # cs) =
     (if c # cs = ''.so'' \<or> prefix ''.so.'' (c # cs) then True
      else c \<noteq> CHR 0x0A \<and> soSuffix cs)"

definition cryptoLibRegex_MatchString :: "string \<Rightarrow> bool" where
  "cryptoLibRegex_MatchString name =
     (prefix ''libcrypto'' name \<and> soSuffix (drop (length ''libcrypto'') name))"

text \<open>
  \<open>filepath.Join libPath name\<close> for a directory of \<open>libPaths\<close> and the name of a
  directory entry (no separator in it, and neither \<open>.\<close> nor \<open>..\<close>): nothing to clean.
\<close>

definition filepath_Join :: "string \<Rightarrow> string \<Rightarrow> string" where
  "filepath_Join dir name = dir @ ''/'' @ name"

fun entries_loop :: "string \<Rightarrow> DirEntry list \<Rightarrow> string list" where
  "entries_loop libPath [] = []"
| "entries_loop libPath (entry # entries) =
     (if \<not> entry_IsDir entry \<and> entry_IsRegular entry
         \<and> cryptoLibRegex_MatchString (entry_Name entry)
      then [filepath_Join libPath (entry_Name entry)] else [])
     @ entries_loop libPath entries"

fun findCryptoLibs_loop :: "root_fs \<Rightarrow> string list \<Rightarrow> string list" where
  "findCryptoLibs_loop fs [] = []"
| "findCryptoLibs_loop fs (libPath # rest) =
     (case Lstat fs libPath of
        Inl err \<Rightarrow> findCryptoLibs_loop fs rest
      | Inr mode \<Rightarrow>
          if mode AND ModeSymlink \<noteq> 0 then findCryptoLibs_loop fs rest
          else (case ReadDir fs libPath of
                  Inl err \<Rightarrow> findCryptoLibs_loop fs rest
                | Inr entries \<Rightarrow> entries_loop libPath entries @ findCryptoLibs_loop fs rest))"

definition findCryptoLibs :: "root_fs \<Rightarrow> string list" where
  "findCryptoLibs fs = findCryptoLibs_loop fs libPaths"

text \<open>The errors \<open>ValidateOpenSSL\<close> collects.\<close>

datatype lib_reason =
    LibcryptoNotFound
  | ExecuteError string
  | NmFailed string
  | NotFIPSCapable string

text \<open>
  \<open>ValidateOpenSSL\<close>. \<open>nm lib\<close> is what running \<open>nm -D\<close> on the library below the
  root did. The result is the list of errors printed and the boolean returned.
\<close>

fun cryptoLibs_loop :: "(string \<Rightarrow> process) \<Rightarrow> string list \<Rightarrow> lib_reason list" where
  "cryptoLibs_loop nm [] = []"
| "cryptoLibs_loop nm (lib # libs) =
     (case Execute (nm lib) of
        (stdout, stderr, rc, err) \<Rightarrow>
          (case err of
             Some e \<Rightarrow> [ExecuteError e]
           | None \<Rightarrow>
               if rc \<noteq> 0 then [NmFailed stderr]
               else (let hasFIPS = strings_Contains stdout ''FIPS_mode''
                                   \<or> strings_Contains stdout ''fips_mode''
                                   \<or> strings_Contains stdout ''EVP_default_properties_is_fips_enabled''
                     in if \<not> hasFIPS then [NotFIPSCapable lib] else [])))
     @ cryptoLibs_loop nm libs"

definition ValidateOpenSSL :: "root_fs \<Rightarrow> (string \<Rightarrow> process) \<Rightarrow> lib_reason list \<times> bool" where
  "ValidateOpenSSL fs nm =
     (let cryptoLibs = findCryptoLibs fs;
          errs = (if length cryptoLibs = 0 then [LibcryptoNotFound]
                  else cryptoLibs_loop nm cryptoLibs)
      in if length errs > 0 then (errs, False) else (errs, True))"

section \<open>A small semantic-version library\<close>

text \<open>
  An instance of the library parameter for concrete inputs: versions written as one to
  three decimal numbers separated by dots (with an optional leading \<open>v\<close>), and the one
  constraint of the table, \<open>>= 1.23\<close>. Every general theorem below holds for any library.
\<close>

fun decimal_loop :: "nat \<Rightarrow> string \<Rightarrow> nat option" where
  "decimal_loop acc [] = Some acc"
| "decimal_loop acc (c # cs) =
     (if 48 \<le> (of_char c :: nat) \<and> (of_char c :: nat) \<le> 57
      then decimal_loop (10 * acc + ((of_char c :: nat) - 48)) cs
      else None)"

definition decimal :: "string \<Rightarrow> nat option" where
  "decimal s = (if s = [] then None else decimal_loop 0 s)"

definition plain_NewVersion :: "string \<Rightarrow> string + (nat \<times> nat \<times> nat)" where
  "plain_NewVersion s =
     (case map decimal (strings_Split (strings_TrimPrefix s ''v'') (CHR ''.'')) of
        [Some major] \<Rightarrow> Inr (major, 0, 0)
      | [Some major, Some minor] \<Rightarrow> Inr (major, minor, 0)
      | [Some major, Some minor, Some patch] \<Rightarrow> Inr (major, minor, patch)
      | _ \<Rightarrow> Inl ''Invalid Semantic Version'')"

definition plain_Check :: "string \<Rightarrow> nat \<times> nat \<times> nat \<Rightarrow> bool" where
  "plain_Check c v =
     (case v of (major, minor, patch) \<Rightarrow>
        c = ''>= 1.23'' \<and> (1 < major \<or> (major = 1 \<and> 23 \<le> minor)))"

definition plain_semver :: "(nat \<times> nat \<times> nat) semver" where
  "plain_semver = \<lparr>NewVersion = plain_NewVersion, Check = plain_Check\<rparr>"

section \<open>The notions of the specification\<close>

text \<open>
  The specification's correlation of a symbol with its section: index 0 is the reserved
  entry for no section, the index of an undefined symbol; a symbol with that index, with
  an index in the reserved range or with one outside the section table has no owning
  section. A symbol is owned outside the zero-initialised data when its owning section is
  not \<open>.bss\<close>.
\<close>

definition owningSection :: "string list \<Rightarrow> Symbol \<Rightarrow> string option" where
  "owningSection secs symb =
     (if Section symb = SHN_UNDEF \<or> SHN_LORESERVE \<le> Section symb
         \<or> int (length secs) \<le> Section symb \<or> Section symb < 0
      then None
      else Some (secs ! nat (Section symb)))"

definition ownedOutsideBss :: "string list \<Rightarrow> Symbol \<Rightarrow> bool" where
  "ownedOutsideBss secs symb =
     (case owningSection secs symb of None \<Rightarrow> False | Some section \<Rightarrow> section \<noteq> ''.bss'')"

definition hasOwnedSymbol :: "ElfInfo \<Rightarrow> (string \<Rightarrow> bool) \<Rightarrow> bool" where
  "hasOwnedSymbol info P =
     list_ex (\<lambda>symb. P (Name symb) \<and> ownedOutsideBss (Sections info) symb) (Symbols info)"

definition hasUndefinedSymbol :: "ElfInfo \<Rightarrow> (string \<Rightarrow> bool) \<Rightarrow> bool" where
  "hasUndefinedSymbol info P =
     list_ex (\<lambda>symb. P (Name symb) \<and> Section symb = SHN_UNDEF) (Symbols info)"

text \<open>
  The lookup of the code, as a function of the symbol: the section name that the three
  loops compare with \<open>.bss\<close>, none for a symbol they pass over. Index 0 is looked up like
  any index below the reserved range. \<open>hasSymbol\<close> says that some symbol with a name
  sought is looked up in a section other than \<open>.bss\<close>.
\<close>

definition lookedUpSection :: "string list \<Rightarrow> Symbol \<Rightarrow> string option" where
  "lookedUpSection secs symb =
     (if SHN_LORESERVE \<le> Section symb \<or> int (length secs) \<le> Section symb \<or> Section symb < 0
      then None
      else Some (secs ! nat (Section symb)))"

definition lookedUpOutsideBss :: "string list \<Rightarrow> Symbol \<Rightarrow> bool" where
  "lookedUpOutsideBss secs symb =
     (case lookedUpSection secs symb of None \<Rightarrow> False | Some section \<Rightarrow> section \<noteq> ''.bss'')"

definition hasSymbol :: "ElfInfo \<Rightarrow> (string \<Rightarrow> bool) \<Rightarrow> bool" where
  "hasSymbol info P =
     list_ex (\<lambda>symb. P (Name symb) \<and> lookedUpOutsideBss (Sections info) symb) (Symbols info)"

text \<open>
  The section indices that \<open>debug/elf\<close> reads from a symbol table are unsigned: no
  symbol of an image has a negative section index.
\<close>

definition sectionsNonNegative :: "ElfInfo \<Rightarrow> bool" where
  "sectionsNonNegative info = list_all (\<lambda>symb. 0 \<le> Section symb) (Symbols info)"

text \<open>
  The settings as the mapping of the specification: the value of a key, when the keys
  are distinct.
\<close>

definition setting :: "BuildInfo \<Rightarrow> string \<Rightarrow> string option" where
  "setting bi k = map_of (map (\<lambda>bs. (Key bs, Value bs)) (Settings bi)) k"

definition distinctKeys :: "BuildInfo \<Rightarrow> bool" where
  "distinctKeys bi = distinct (map Key (Settings bi))"

text \<open>
  A library directory that the scan passes over: it is missing (\<open>Lstat\<close> fails), it is a
  symbolic link, or it cannot be listed (\<open>ReadDir\<close> fails).
\<close>

definition dirSkipped :: "root_fs \<Rightarrow> string \<Rightarrow> bool" where
  "dirSkipped fs libPath =
     (case Lstat fs libPath of
        Inl err \<Rightarrow> True
      | Inr mode \<Rightarrow> mode AND ModeSymlink \<noteq> 0 \<or> isl (ReadDir fs libPath))"

text \<open>
  The entries of a library directory that the scan looks at (none when it passes over
  the directory), and the libraries it matches: the regular files among them whose name
  fits the pattern, under any of the four directories.
\<close>

definition listedEntries :: "root_fs \<Rightarrow> string \<Rightarrow> DirEntry list" where
  "listedEntries fs libPath =
     (if dirSkipped fs libPath then []
      else (case ReadDir fs libPath of Inl err \<Rightarrow> [] | Inr entries \<Rightarrow> entries))"

definition matchedLibrary :: "root_fs \<Rightarrow> string \<Rightarrow> bool" where
  "matchedLibrary fs lib =
     list_ex (\<lambda>libPath.
        list_ex (\<lambda>entry. \<not> entry_IsDir entry \<and> entry_IsRegular entry
                   \<and> cryptoLibRegex_MatchString (entry_Name entry)
                   \<and> lib = filepath_Join libPath (entry_Name entry))
          (listedEntries fs libPath))
       libPaths"

text \<open>
  \<open>nm\<close> ran, exited with 0, and its output names none of the three indicator symbols.
\<close>

definition exportsNoFipsSymbol :: "(string \<Rightarrow> process) \<Rightarrow> string \<Rightarrow> bool" where
  "exportsNoFipsSymbol nm lib =
     (cmd_Run (nm lib) = Run_nil
      \<and> \<not> sublist ''FIPS_mode'' (stdoutBytes (nm lib))
      \<and> \<not> sublist ''fips_mode'' (stdoutBytes (nm lib))
      \<and> \<not> sublist ''EVP_default_properties_is_fips_enabled'' (stdoutBytes (nm lib)))"

section \<open>Concrete images and build information\<close>

text \<open>
  An image with the sections \<open>""\<close>, \<open>.text\<close>, \<open>.bss\<close> and the given symbols, and the
  symbols used below: a crypto routine, the cgo initialiser and the symbol required
  from Go 1.23 on, each in \<open>.text\<close>.
\<close>

definition elfImage :: "bool \<Rightarrow> Symbol list \<Rightarrow> ElfInfo" where
  "elfImage static syms =
     \<lparr>IsElf = True, IsStatic = static, Sections = [[], ''.text'', ''.bss''], Symbols = syms\<rparr>"

definition cryptoSymbol :: Symbol where
  "cryptoSymbol = \<lparr>Name = ''crypto/sha256.block'', Section = 1\<rparr>"

definition cgoInitSymbol :: Symbol where
  "cgoInitSymbol = \<lparr>Name = ''_cgo_init'', Section = 1\<rparr>"

definition dlopenSymbol :: Symbol where
  "dlopenSymbol = \<lparr>Name = ''vendor/github.com/golang-fips/openssl/v2.dlopen'', Section = 1\<rparr>"

definition buildInfo :: "string \<Rightarrow> (string \<times> string) list \<Rightarrow> BuildInfo" where
  "buildInfo v kvs = \<lparr>GoVersion = v, Settings = map (\<lambda>(k, x). \<lparr>Key = k, Value = x\<rparr>) kvs\<rparr>"

text \<open>
  An image whose symbols all carry the substring \<open>crypto\<close>: one absolute symbol
  (\<open>SHN_ABS\<close>), one whose index is past the three sections, and one in \<open>.bss\<close>.
\<close>

definition mixedImage :: ElfInfo where
  "mixedImage = elfImage False
     [\<lparr>Name = ''crypto.abs'', Section = SHN_ABS\<rparr>, \<lparr>Name = ''crypto.far'', Section = 3\<rparr>,
      \<lparr>Name = ''crypto.data'', Section = 2\<rparr>]"

text \<open>
  A binary that meets every rule, and one built with \<open>CGO_ENABLED=0\<close>, with the forbidden
  tag and without the required symbol.
\<close>

definition compliantImage :: ElfInfo where
  "compliantImage = elfImage False [cryptoSymbol, cgoInitSymbol, dlopenSymbol]"

definition compliantBuild :: BuildInfo where
  "compliantBuild = buildInfo ''go1.23.0''
     [(''CGO_ENABLED'', ''1''), (''-tags'', ''netgo,osusergo''),
      (''GOEXPERIMENT'', ''strictfipsruntime'')]"

definition violatingImage :: ElfInfo where
  "violatingImage = elfImage False [cryptoSymbol, cgoInitSymbol]"

definition violatingBuild :: BuildInfo where
  "violatingBuild = buildInfo ''go1.23.0''
     [(''CGO_ENABLED'', ''0''), (''-tags'', ''netgo,no_openssl''),
      (''GOEXPERIMENT'', ''strictfipsruntime'')]"

text \<open>
  A build with a release candidate of the toolchain, and one without any
  \<open>GOEXPERIMENT\<close> setting.
\<close>

definition candidateBuild :: BuildInfo where
  "candidateBuild = buildInfo ''go1.23rc1''
     [(''CGO_ENABLED'', ''0''), (''-tags'', ''netgo,no_openssl''),
      (''GOEXPERIMENT'', ''nocoverageredesign'')]"

definition flaglessBuild :: BuildInfo where
  "flaglessBuild = buildInfo ''go1.23.0'' [(''CGO_ENABLED'', ''1''), (''-tags'', ''netgo'')]"

text \<open>
  Two roots. In the first, \<open>/lib64\<close> and \<open>/lib\<close> are symbolic links, \<open>/usr/lib\<close> is
  missing and \<open>/usr/lib64\<close> holds a crypto library, a symbolic link to it and another
  library; \<open>nm\<close> lists no indicator symbol. In the second, \<open>/usr/lib64\<close> cannot be
  listed.
\<close>

definition usrLib64 :: "DirEntry list" where
  "usrLib64 =
     [\<lparr>entry_Name = ''libcrypto.so'', entry_IsDir = False, entry_IsRegular = False\<rparr>,
      \<lparr>entry_Name = ''libcrypto.so.3.0.7'', entry_IsDir = False, entry_IsRegular = True\<rparr>,
      \<lparr>entry_Name = ''libssl.so.3.0.7'', entry_IsDir = False, entry_IsRegular = True\<rparr>]"

definition mergedUsrRoot :: root_fs where
  "mergedUsrRoot =
     \<lparr>Lstat = (\<lambda>p. if p = ''/lib64'' \<or> p = ''/lib'' then Inr 0x80001FF
                    else if p = ''/usr/lib64'' then Inr 0x800001ED
                    else Inl ''no such file or directory''),
      ReadDir = (\<lambda>p. if p = ''/usr/lib64'' \<or> p = ''/lib64'' then Inr usrLib64
                      else Inl ''no such file or directory'')\<rparr>"

definition lockedRoot :: root_fs where
  "lockedRoot =
     \<lparr>Lstat = (\<lambda>p. if p = ''/lib64'' \<or> p = ''/lib'' then Inr 0x80001FF
                    else if p = ''/usr/lib64'' then Inr 0x800001C0
                    else Inl ''no such file or directory''),
      ReadDir = (\<lambda>p. if p = ''/lib64'' then Inr usrLib64
                      else if p = ''/usr/lib64'' then Inl ''permission denied''
                      else Inl ''no such file or directory'')\<rparr>"

definition plainNm :: "string \<Rightarrow> process" where
  "plainNm lib =
     \<lparr>stdoutBytes = ''0000000000001000 T EVP_sha256'', stderrBytes = [], cmd_Run = Run_nil\<rparr>"

text \<open>
  A root whose library directory holds no crypto library, only another library and a
  directory with a fitting name.
\<close>

definition bareRoot :: root_fs where
  "bareRoot =
     \<lparr>Lstat = (\<lambda>p. if p = ''/usr/lib64'' then Inr 0x800001ED
                    else Inl ''no such file or directory''),
      ReadDir = (\<lambda>p. if p = ''/usr/lib64''
                      then Inr [\<lparr>entry_Name = ''libssl.so.3.0.7'', entry_IsDir = False,
                                  entry_IsRegular = True\<rparr>,
                                \<lparr>entry_Name = ''libcrypto.so.d'', entry_IsDir = True,
                                  entry_IsRegular = False\<rparr>]
                      else Inl ''no such file or directory'')\<rparr>"

text \<open>An undefined symbol, as a binary linked against the crypto library carries it.\<close>

definition undefinedCrypto :: Symbol where
  "undefinedCrypto = \<lparr>Name = ''OPENSSL_init_crypto'', Section = SHN_UNDEF\<rparr>"

text \<open>
  A statically linked image without crypto: a crypto-named symbol in \<open>.bss\<close>, a routine
  in \<open>.text\<close> and an undefined routine of the C library.
\<close>

definition cryptoFreeImage :: ElfInfo where
  "cryptoFreeImage = elfImage True
     [\<lparr>Name = ''crypto.state'', Section = 2\<rparr>, \<lparr>Name = ''main.main'', Section = 1\<rparr>,
      \<lparr>Name = ''malloc'', Section = SHN_UNDEF\<rparr>]"

section \<open>The loops over the symbol table\<close>

text \<open>
  A symbol whose index is reserved, or not below the number of sections, is passed over
  by each of the three loops, wherever it stands in the table.
\<close>

lemma usesCrypto_loop_skip:
  "SHN_LORESERVE \<le> Section symb \<or> int (length secs) \<le> Section symb \<Longrightarrow>
   usesCrypto_loop secs (pre @ symb # post) = usesCrypto_loop secs (pre @ post)"
  by (induction pre) (simp_all split: sum.splits)

lemma validateCgoInit_loop_skip:
  "SHN_LORESERVE \<le> Section symb \<or> int (length secs) \<le> Section symb \<Longrightarrow>
   validateCgoInit_loop secs (pre @ symb # post) = validateCgoInit_loop secs (pre @ post)"
  by (induction pre) (simp_all split: sum.splits)

lemma symbolFound_skip:
  "SHN_LORESERVE \<le> Section symb \<or> int (length secs) \<le> Section symb \<Longrightarrow>
   symbolFound secs rs (pre @ symb # post) = symbolFound secs rs (pre @ post)"
  by (induction pre) (simp_all split: sum.splits)

lemma requiredSymbols_loop_cong:
  "Sections a = Sections b \<Longrightarrow>
   (\<And>rs. symbolFound (Sections a) rs (Symbols a) = symbolFound (Sections b) rs (Symbols b)) \<Longrightarrow>
   requiredSymbols_loop a rss = requiredSymbols_loop b rss"
  by (induction rss) (simp_all split: sum.splits)

text \<open>
  On a table without negative indices the loops do not panic, and they compute whether
  some symbol with the name sought is looked up in a section other than \<open>.bss\<close>.
\<close>

lemma usesCrypto_loop_spec:
  "list_all (\<lambda>symb. 0 \<le> Section symb) syms \<Longrightarrow>
   usesCrypto_loop secs syms =
     Inr (list_ex (\<lambda>symb. strings_Contains (Name symb) ''crypto'' \<and> lookedUpOutsideBss secs symb) syms)"
  by (induction syms)
     (auto simp: index_at_def lookedUpOutsideBss_def lookedUpSection_def slices_Contains_def)

lemma validateCgoInit_loop_spec:
  "list_all (\<lambda>symb. 0 \<le> Section symb) syms \<Longrightarrow>
   validateCgoInit_loop secs syms =
     Inr (if list_ex (\<lambda>symb. (Name symb = ''_cgo_init'' \<or> Name symb = ''_cgo_topofstack'')
                          \<and> lookedUpOutsideBss secs symb) syms
          then [] else [MissingCgoInit])"
  by (induction syms)
     (auto simp: index_at_def lookedUpOutsideBss_def lookedUpSection_def slices_Contains_def)

lemma symbolFound_spec:
  "list_all (\<lambda>symb. 0 \<le> Section symb) syms \<Longrightarrow>
   symbolFound secs rs syms =
     Inr (list_ex (\<lambda>symb. Name symb = rs \<and> lookedUpOutsideBss secs symb) syms)"
  by (induction syms)
     (auto simp: index_at_def lookedUpOutsideBss_def lookedUpSection_def slices_Contains_def)

lemma requiredSymbols_loop_spec:
  "sectionsNonNegative info \<Longrightarrow>
   requiredSymbols_loop info rss =
     Inr (map MissingRequiredSymbol (filter (\<lambda>rs. \<not> hasSymbol info (\<lambda>n. n = rs)) rss))"
  by (induction rss) (simp_all add: symbolFound_spec sectionsNonNegative_def hasSymbol_def)

lemma usesCrypto_spec:
  "sectionsNonNegative info \<Longrightarrow>
   usesCrypto info = Inr (hasSymbol info (\<lambda>n. strings_Contains n ''crypto''))"
  by (simp add: usesCrypto_def sectionsNonNegative_def usesCrypto_loop_spec hasSymbol_def)

lemma validateCgoInit_spec:
  "sectionsNonNegative info \<Longrightarrow>
   validateCgoInit info =
     Inr (if hasSymbol info (\<lambda>n. n = ''_cgo_init'' \<or> n = ''_cgo_topofstack'') then []
          else [MissingCgoInit])"
  by (simp add: validateCgoInit_def sectionsNonNegative_def validateCgoInit_loop_spec hasSymbol_def)

text \<open>
  The lookup of the code and the ownership of the specification differ at index 0 alone:
  the code looks an undefined symbol up in section 0, if there is one. So a symbol the
  code finds is owned outside \<open>.bss\<close> or undefined.
\<close>

lemma lookedUpSection_owningSection:
  "lookedUpSection secs symb =
     (if Section symb = SHN_UNDEF \<and> secs \<noteq> [] then Some (secs ! 0) else owningSection secs symb)"
  by (auto simp: lookedUpSection_def owningSection_def SHN_UNDEF_def SHN_LORESERVE_def)

lemma hasSymbol_owned_or_undefined:
  "hasSymbol info P \<Longrightarrow> hasOwnedSymbol info P \<or> hasUndefinedSymbol info P"
  by (auto simp: hasSymbol_def hasOwnedSymbol_def hasUndefinedSymbol_def list_ex_iff
      lookedUpOutsideBss_def ownedOutsideBss_def lookedUpSection_owningSection
      split: if_splits)

section \<open>The loops over the build settings\<close>

text \<open>
  With distinct keys the loops over the settings read the mapping: the cgo check and the
  experiment check look at the one value of their key, the tags are those of \<open>-tags\<close>.
\<close>

lemma validateCgoEnabled_loop_absent:
  "''CGO_ENABLED'' \<notin> Key ` set bss \<Longrightarrow> validateCgoEnabled_loop bss = [NotCgoEnabled]"
  by (induction bss) auto

lemma validateCgoEnabled_loop_spec:
  "distinct (map Key bss) \<Longrightarrow>
   validateCgoEnabled_loop bss =
     (if map_of (map (\<lambda>bs. (Key bs, Value bs)) bss) ''CGO_ENABLED'' = Some ''1'' then []
      else [NotCgoEnabled])"
  by (induction bss) (auto simp: validateCgoEnabled_loop_absent)

lemma buildTags_loop_spec:
  "buildTags_loop bss =
     (case map_of (map (\<lambda>bs. (Key bs, Value bs)) bss) ''-tags'' of
        None \<Rightarrow> []
      | Some tags \<Rightarrow> strings_Split tags (CHR '',''))"
  by (induction bss) auto

lemma experiment_loop_absent:
  "''GOEXPERIMENT'' \<notin> Key ` set bss \<Longrightarrow> experiment_loop bss = []"
  by (induction bss) auto

lemma experiment_loop_spec:
  "distinct (map Key bss) \<Longrightarrow>
   experiment_loop bss =
     (case map_of (map (\<lambda>bs. (Key bs, Value bs)) bss) ''GOEXPERIMENT'' of
        None \<Rightarrow> []
      | Some e \<Rightarrow> if strings_Contains e ''strictfipsruntime'' then [] else [MissingGoExperiment])"
  by (induction bss) (auto simp: experiment_loop_absent)

text \<open>The errors each check can give.\<close>

lemma validateCgoEnabled_loop_reasons: "set (validateCgoEnabled_loop bss) \<subseteq> {NotCgoEnabled}"
  by (induction bss) simp_all

lemma validateCgoInit_loop_reasons:
  "validateCgoInit_loop secs syms = Inr errs \<Longrightarrow> set errs \<subseteq> {MissingCgoInit}"
  by (induction syms) (auto split: if_splits sum.splits)

lemma deniedTags_loop_reasons: "set (deniedTags_loop buildTags tags) \<subseteq> ForbiddenBuildTag ` set tags"
  by (induction tags) auto

lemma experiment_loop_reasons: "set (experiment_loop bss) \<subseteq> {MissingGoExperiment}"
  by (induction bss) auto

lemma other_checks_reasons:
  assumes "validateCgoInit info = Inr cgoInit"
  shows "MissingRequiredSymbol rs \<notin>
           set (validateNotStaticallyLinked info @ validateCgoEnabled bi @ cgoInit
                @ validateGoTagsAndExperiment bi)"
proof -
  have "MissingRequiredSymbol rs \<notin> set (validateNotStaticallyLinked info)"
    by (simp add: validateNotStaticallyLinked_def)
  moreover have "MissingRequiredSymbol rs \<notin> set (validateCgoEnabled bi)"
    using validateCgoEnabled_loop_reasons [of "Settings bi"]
    by (auto simp: validateCgoEnabled_def)
  moreover have "MissingRequiredSymbol rs \<notin> set cgoInit"
    using validateCgoInit_loop_reasons [of "Sections info" "Symbols info" cgoInit] assms
    by (auto simp: validateCgoInit_def)
  moreover have "MissingRequiredSymbol rs \<notin> set (validateGoTagsAndExperiment bi)"
    using deniedTags_loop_reasons [of "buildTags_loop (Settings bi)" "[''no_openssl'']"]
      experiment_loop_reasons [of "Settings bi"]
    by (auto simp: validateGoTagsAndExperiment_def)
  ultimately show ?thesis by simp
qed

text \<open>
  The experiment error is given exactly when some \<open>GOEXPERIMENT\<close> setting lacks the
  token; a build without the setting never gets it.
\<close>

lemma experiment_reason_iff:
  "MissingGoExperiment \<in> set (validateGoTagsAndExperiment bi) \<longleftrightarrow>
     (\<exists>bs\<in>set (Settings bi). Key bs = ''GOEXPERIMENT''
        \<and> \<not> strings_Contains (Value bs) ''strictfipsruntime'')"
proof -
  have a: "MissingGoExperiment \<in> set (experiment_loop bss) \<longleftrightarrow>
     (\<exists>bs\<in>set bss. Key bs = ''GOEXPERIMENT'' \<and> \<not> strings_Contains (Value bs) ''strictfipsruntime'')"
    for bss
    by (induction bss) auto
  have b: "MissingGoExperiment \<notin> set (deniedTags_loop buildTags tags)" for buildTags tags
    using deniedTags_loop_reasons [of buildTags tags] by auto
  show ?thesis
    by (simp add: validateGoTagsAndExperiment_def a b del: deniedTags_loop.simps)
qed

lemma selectRequirements_none:
  "\<forall>req\<in>set table. \<not> Check lib (versions req) v \<Longrightarrow> selectRequirements lib table v = []"
  by (induction table) simp_all

section \<open>The scan of the library directories\<close>

lemma findCryptoLibs_loop_skipped:
  "dirSkipped fs libPath \<Longrightarrow> findCryptoLibs_loop fs (libPath # rest) = findCryptoLibs_loop fs rest"
  by (auto simp: dirSkipped_def isl_def split: sum.splits)

lemma findCryptoLibs_loop_all_skipped:
  "\<forall>libPath\<in>set dirs. dirSkipped fs libPath \<Longrightarrow> findCryptoLibs_loop fs dirs = []"
  by (induction dirs) (simp_all add: findCryptoLibs_loop_skipped del: findCryptoLibs_loop.simps(2))

lemma findCryptoLibs_loop_listed:
  "findCryptoLibs_loop fs dirs =
     concat (map (\<lambda>libPath. entries_loop libPath (listedEntries fs libPath)) dirs)"
  by (induction dirs) (auto simp: listedEntries_def dirSkipped_def split: sum.splits)

lemma entries_loop_mem:
  "lib \<in> set (entries_loop libPath entries) \<longleftrightarrow>
     (\<exists>entry\<in>set entries. \<not> entry_IsDir entry \<and> entry_IsRegular entry
         \<and> cryptoLibRegex_MatchString (entry_Name entry)
         \<and> lib = filepath_Join libPath (entry_Name entry))"
  by (induction entries) auto

lemma findCryptoLibs_matched: "lib \<in> set (findCryptoLibs fs) \<longleftrightarrow> matchedLibrary fs lib"
  by (auto simp: findCryptoLibs_def findCryptoLibs_loop_listed entries_loop_mem matchedLibrary_def
      list_ex_iff)

lemma cryptoLibs_loop_none:
  "\<forall>lib\<in>set libs. exportsNoFipsSymbol nm lib \<Longrightarrow> cryptoLibs_loop nm libs = map NotFIPSCapable libs"
  by (induction libs) (simp_all add: exportsNoFipsSymbol_def Execute_def strings_Contains_def)

text \<open>
  The matcher accepts the names the regular expression \<open>^libcrypto.*\.so($|\..*)\<close>
  matches: \<open>libcrypto\<close>, any characters but a newline, \<open>.so\<close>, and then nothing or a
  dot and anything.
\<close>

lemma soSuffix_iff:
  "soSuffix s \<longleftrightarrow>
     (\<exists>a r. s = a @ ''.so'' @ r \<and> CHR 0x0A \<notin> set a \<and> (r = [] \<or> hd r = CHR ''.''))"
proof
  show "soSuffix s \<Longrightarrow> \<exists>a r. s = a @ ''.so'' @ r \<and> CHR 0x0A \<notin> set a \<and> (r = [] \<or> hd r = CHR ''.'')"
  proof (induction s)
    case Nil
    then show ?case by simp
  next
    case (Cons c cs)
    show ?case
    proof (cases "c # cs = ''.so'' \<or> prefix ''.so.'' (c # cs)")
      case True
      then have "\<exists>r. c # cs = [] @ ''.so'' @ r \<and> (r = [] \<or> hd r = CHR ''.'')"
        by (auto simp: prefix_def)
      then show ?thesis by (metis empty_iff list.set(1))
    next
      case False
      with Cons.prems have "c \<noteq> CHR 0x0A" "soSuffix cs" by auto
      with Cons.IH obtain a r where
        "cs = a @ ''.so'' @ r" "CHR 0x0A \<notin> set a" "r = [] \<or> hd r = CHR ''.''"
        by blast
      with \<open>c \<noteq> CHR 0x0A\<close> have "c # cs = (c # a) @ ''.so'' @ r \<and> CHR 0x0A \<notin> set (c # a)
          \<and> (r = [] \<or> hd r = CHR ''.'')"
        by simp
      then show ?thesis by blast
    qed
  qed
next
  assume "\<exists>a r. s = a @ ''.so'' @ r \<and> CHR 0x0A \<notin> set a \<and> (r = [] \<or> hd r = CHR ''.'')"
  then obtain a r where s: "s = a @ ''.so'' @ r" and a: "CHR 0x0A \<notin> set a"
    and r: "r = [] \<or> hd r = CHR ''.''"
    by blast
  have base: "soSuffix (''.so'' @ r)"
    using r by (cases r) auto
  from a have "soSuffix (a @ ''.so'' @ r)"
  proof (induction a)
    case Nil
    with base show ?case by simp
  next
    case (Cons x xs)
    then show ?case by auto
  qed
  with s show "soSuffix s" by simp
qed

lemma cryptoLibRegex_MatchString_iff:
  "cryptoLibRegex_MatchString name \<longleftrightarrow>
     (\<exists>a r. name = ''libcrypto'' @ a @ ''.so'' @ r \<and> CHR 0x0A \<notin> set a
         \<and> (r = [] \<or> hd r = CHR ''.''))"
proof
  assume "cryptoLibRegex_MatchString name"
  then obtain t where t: "name = ''libcrypto'' @ t" and "soSuffix (drop (length ''libcrypto'') name)"
    by (auto simp: cryptoLibRegex_MatchString_def prefix_def)
  then have "soSuffix t" by simp
  then obtain a r where "t = a @ ''.so'' @ r" "CHR 0x0A \<notin> set a" "r = [] \<or> hd r = CHR ''.''"
    unfolding soSuffix_iff by blast
  with t show "\<exists>a r. name = ''libcrypto'' @ a @ ''.so'' @ r \<and> CHR 0x0A \<notin> set a
         \<and> (r = [] \<or> hd r = CHR ''.'')"
    by blast
next
  assume "\<exists>a r. name = ''libcrypto'' @ a @ ''.so'' @ r \<and> CHR 0x0A \<notin> set a
         \<and> (r = [] \<or> hd r = CHR ''.'')"
  then obtain a r where n: "name = ''libcrypto'' @ (a @ ''.so'' @ r)" and "CHR 0x0A \<notin> set a"
    "r = [] \<or> hd r = CHR ''.''"
    by auto
  then have "soSuffix (a @ ''.so'' @ r)"
    unfolding soSuffix_iff by blast
  moreover from n have "drop (length ''libcrypto'') name = a @ ''.so'' @ r"
    by simp
  moreover from n have "prefix ''libcrypto'' name"
    by simp
  ultimately show "cryptoLibRegex_MatchString name"
    by (simp add: cryptoLibRegex_MatchString_def)
qed

section \<open>Reading the file\<close>

lemma ReadFile_error_iff:
  "ReadFile opened = Inl err \<longleftrightarrow>
     opened = Inl err
     \<or> (\<exists>exe. opened = Inr exe \<and> FileType exe = ET_DYN \<and> DynValue_FLAGS_1 exe = Inl err)"
  by (auto simp: ReadFile_def isPie_def split: sum.splits elf_Type.splits if_splits)

text \<open>The definitions unfolded to evaluate the model on a concrete input.\<close>

lemmas eval_defs =
  usesCrypto_def validateCgoInit_def validateGoSymbols_def validateCgoEnabled_def
  validateGoTagsAndExperiment_def validateNotStaticallyLinked_def collectErrors_def
  ValidateBinary_def goVersionText_def strings_TrimPrefix_def strings_HasPrefix_def
  strings_Contains_def slices_Contains_def index_at_def SHN_LORESERVE_def SHN_ABS_def
  SHN_COMMON_def SHN_UNDEF_def requiredSymbolsForGoVersions_def elfImage_def cryptoSymbol_def
  cgoInitSymbol_def dlopenSymbol_def buildInfo_def plain_semver_def plain_NewVersion_def
  plain_Check_def decimal_def shellScriptMagic_def

lemmas example_defs =
  compliantImage_def compliantBuild_def violatingImage_def violatingBuild_def
  candidateBuild_def flaglessBuild_def mixedImage_def undefinedCrypto_def
  cryptoFreeImage_def hasSymbol_def lookedUpOutsideBss_def lookedUpSection_def
  hasOwnedSymbol_def hasUndefinedSymbol_def ownedOutsideBss_def owningSection_def
  sectionsNonNegative_def
  setting_def distinctKeys_def

lemmas scan_defs =
  mergedUsrRoot_def lockedRoot_def bareRoot_def usrLib64_def plainNm_def libPaths_def
  ModeSymlink_def dirSkipped_def listedEntries_def matchedLibrary_def
  cryptoLibRegex_MatchString_def filepath_Join_def exportsNoFipsSymbol_def findCryptoLibs_def
  ValidateOpenSSL_def Execute_def

section \<open>Files that cannot be read\<close>

text \<open>
  C1 (as the code has it). When the file cannot be read (\<open>elf.Open\<close> fails, or the
  dynamic flags of a shared object cannot be read), \<open>ReadFile\<close> returns the error and
  \<open>ValidateBinary\<close> reports the file as skipped and returns true: as a shell script
  when the message starts with the bad magic number of \<open>#!\<close>, as a read failure with
  the message otherwise. No check runs, and there is no outcome other than the report
  and the boolean.
\<close>

theorem read_error_is_skip:
  assumes "opened = Inl err
     \<or> (\<exists>exe. opened = Inr exe \<and> FileType exe = ET_DYN \<and> DynValue_FLAGS_1 exe = Inl err)"
  shows "ReadFile opened = Inl err
       \<and> ValidateBinary lib (ReadFile opened) bi_res =
           Inr (if strings_HasPrefix err shellScriptMagic then SkippedShellScript
                else SkippedReadFailure err, True)"
proof -
  from assms have "ReadFile opened = Inl err"
    by (simp add: ReadFile_error_iff)
  then show ?thesis
    by (simp add: ValidateBinary_def)
qed

theorem read_error_is_skip_witness:
  "ValidateBinary plain_semver (ReadFile (Inl (shellScriptMagic @ '' 47 98]'')))
     (Inl ''not a Go executable'')
     = Inr (SkippedShellScript, True)
   \<and> ValidateBinary plain_semver
       (ReadFile (Inr \<lparr>FileType = ET_DYN, Progs = [], SectionNames = [], SymbolsResult = Inr [],
                       DynValue_FLAGS_1 = Inl ''unexpected EOF''\<rparr>))
       (Inl ''not a Go executable'')
     = Inr (SkippedReadFailure ''unexpected EOF'', True)"
proof -
  have h1: "(Inl (shellScriptMagic @ '' 47 98]'') :: string + elf_File)
              = Inl (shellScriptMagic @ '' 47 98]'')
     \<or> (\<exists>exe. (Inl (shellScriptMagic @ '' 47 98]'') :: string + elf_File) = Inr exe
           \<and> FileType exe = ET_DYN
           \<and> DynValue_FLAGS_1 exe = Inl (shellScriptMagic @ '' 47 98]''))"
    by simp
  have h2: "Inr \<lparr>FileType = ET_DYN, Progs = [], SectionNames = [], SymbolsResult = Inr [],
                  DynValue_FLAGS_1 = Inl ''unexpected EOF''\<rparr> = Inl ''unexpected EOF''
     \<or> (\<exists>exe. Inr \<lparr>FileType = ET_DYN, Progs = [], SectionNames = [], SymbolsResult = Inr [],
                  DynValue_FLAGS_1 = Inl ''unexpected EOF''\<rparr> = Inr exe \<and> FileType exe = ET_DYN
           \<and> DynValue_FLAGS_1 exe = Inl ''unexpected EOF'')"
    by simp
  note r1 = conjunct2 [OF read_error_is_skip [OF h1]]
  note r2 = conjunct2 [OF read_error_is_skip [OF h2]]
  show ?thesis
    unfolding r1 r2 by (simp add: strings_HasPrefix_def shellScriptMagic_def)
qed

text \<open>
  An input/output error while the file is read: the file is reported as skipped and
  the validation of the binary returns true, the value it returns for a binary that
  passes.
\<close>

theorem read_error_counterexample:
  "ValidateBinary plain_semver
     (ReadFile (Inl ''read /usr/bin/tool: input/output error'')) (Inl ''not a Go executable'')
   = Inr (SkippedReadFailure ''read /usr/bin/tool: input/output error'', True)"
  by (simp add: ReadFile_def ValidateBinary_def strings_HasPrefix_def shellScriptMagic_def)

section \<open>The crypto gate\<close>

text \<open>
  The gate stays shut exactly on the images without a symbol whose name contains
  \<open>crypto\<close> and which the code looks up in a section other than \<open>.bss\<close>.
\<close>

lemma crypto_gate_shut:
  assumes "IsElf ei" and "sectionsNonNegative ei"
    and "\<not> hasSymbol ei (\<lambda>n. strings_Contains n ''crypto'')"
  shows "ValidateBinary lib (Inr ei) bi_res = Inr (SkippedNoCrypto, True)"
  using assms by (simp add: ValidateBinary_def usesCrypto_spec)

text \<open>
  C7 (as the code has it). A recognised binary with no symbol whose name contains
  \<open>crypto\<close> and which is undefined or owned by a section other than \<open>.bss\<close> is reported
  as skipped for want of crypto and validates, whatever its link type, whatever the build
  information and whatever the version library does: no later check runs. Nothing is
  said here of a binary with an undefined symbol of such a name.
\<close>

theorem no_crypto_is_success:
  assumes "IsElf ei" and "sectionsNonNegative ei"
    and "\<not> hasOwnedSymbol ei (\<lambda>n. strings_Contains n ''crypto'')"
    and "\<not> hasUndefinedSymbol ei (\<lambda>n. strings_Contains n ''crypto'')"
  shows "ValidateBinary lib (Inr ei) bi_res = Inr (SkippedNoCrypto, True)"
proof -
  from assms(3,4) have "\<not> hasSymbol ei (\<lambda>n. strings_Contains n ''crypto'')"
    using hasSymbol_owned_or_undefined [of ei "\<lambda>n. strings_Contains n ''crypto''"] by blast
  with assms(1,2) show ?thesis
    by (rule crypto_gate_shut)
qed

text \<open>
  A statically linked image whose only crypto symbol lies in \<open>.bss\<close>, built without cgo
  and with the forbidden tag: skipped all the same.
\<close>

theorem no_crypto_is_success_witness:
  "ValidateBinary plain_semver (Inr cryptoFreeImage) (Inr violatingBuild)
   = Inr (SkippedNoCrypto, True)"
proof (rule no_crypto_is_success)
  show "IsElf cryptoFreeImage"
    by (simp add: cryptoFreeImage_def elfImage_def)
  show "sectionsNonNegative cryptoFreeImage"
    by (simp add: sectionsNonNegative_def cryptoFreeImage_def elfImage_def SHN_UNDEF_def)
  show "\<not> hasOwnedSymbol cryptoFreeImage (\<lambda>n. strings_Contains n ''crypto'')"
    by (simp add: hasOwnedSymbol_def ownedOutsideBss_def owningSection_def cryptoFreeImage_def
        elfImage_def SHN_LORESERVE_def SHN_UNDEF_def strings_Contains_def sublist_code)
  show "\<not> hasUndefinedSymbol cryptoFreeImage (\<lambda>n. strings_Contains n ''crypto'')"
    by (simp add: hasUndefinedSymbol_def cryptoFreeImage_def elfImage_def SHN_UNDEF_def
        strings_Contains_def sublist_code)
qed

text \<open>
  A statically linked image whose only symbol is undefined and has \<open>crypto\<close> in its
  name: no section owns the symbol, yet the gate opens, the static-link check runs and
  the binary fails.
\<close>

theorem undefined_crypto_counterexample:
  "IsElf (elfImage True [undefinedCrypto])
   \<and> owningSection (Sections (elfImage True [undefinedCrypto])) undefinedCrypto = None
   \<and> \<not> hasOwnedSymbol (elfImage True [undefinedCrypto]) (\<lambda>n. strings_Contains n ''crypto'')
   \<and> ValidateBinary plain_semver (Inr (elfImage True [undefinedCrypto])) (Inl ''not a Go executable'')
       = Inr (Failed [StaticallyLinked], False)"
  by (simp add: example_defs eval_defs sublist_code)

section \<open>Symbols and sections\<close>

text \<open>
  C2 (as the code has it). A symbol whose section index is \<open>SHN_LORESERVE\<close> or more (an
  absolute symbol, a common symbol, any other reserved index) has no owning section, and
  each of the three checks that look at section names (the crypto gate, the cgo-init
  check, the required-symbol check) gives the same result with the symbol in the table,
  at any position, as without it. The index of an undefined symbol is 0, below the
  range: nothing is said of it here.
\<close>

theorem reserved_symbol_excluded:
  assumes "SHN_LORESERVE \<le> Section symb"
  shows "usesCrypto (info\<lparr>Symbols := pre @ symb # post\<rparr>) = usesCrypto (info\<lparr>Symbols := pre @ post\<rparr>)
       \<and> (validateCgoInit (info\<lparr>Symbols := pre @ symb # post\<rparr>) :: panic + 'v reason list)
           = validateCgoInit (info\<lparr>Symbols := pre @ post\<rparr>)
       \<and> validateGoSymbols (lib :: 'v semver) (info\<lparr>Symbols := pre @ symb # post\<rparr>) v
           = validateGoSymbols lib (info\<lparr>Symbols := pre @ post\<rparr>) v
       \<and> owningSection (Sections info) symb = None"
proof -
  from assms have skip: "SHN_LORESERVE \<le> Section symb \<or> int (length (Sections info)) \<le> Section symb"
    by simp
  have a: "usesCrypto (info\<lparr>Symbols := pre @ symb # post\<rparr>) = usesCrypto (info\<lparr>Symbols := pre @ post\<rparr>)"
    by (simp add: usesCrypto_def usesCrypto_loop_skip [OF skip])
  have b: "(validateCgoInit (info\<lparr>Symbols := pre @ symb # post\<rparr>) :: panic + 'v reason list)
           = validateCgoInit (info\<lparr>Symbols := pre @ post\<rparr>)"
    by (simp add: validateCgoInit_def validateCgoInit_loop_skip [OF skip])
  have "\<And>rss. (requiredSymbols_loop (info\<lparr>Symbols := pre @ symb # post\<rparr>) rss :: panic + 'v reason list)
             = requiredSymbols_loop (info\<lparr>Symbols := pre @ post\<rparr>) rss"
    by (rule requiredSymbols_loop_cong) (simp_all add: symbolFound_skip [OF skip])
  then have c: "validateGoSymbols lib (info\<lparr>Symbols := pre @ symb # post\<rparr>) v
           = validateGoSymbols lib (info\<lparr>Symbols := pre @ post\<rparr>) v"
    by (simp add: validateGoSymbols_def Let_def)
  have d: "owningSection (Sections info) symb = None"
    using assms by (simp add: owningSection_def)
  from a b c d show ?thesis by simp
qed

text \<open>
  The three symbols sought, as absolute or common symbols: none is found, where the
  crypto symbol in \<open>.text\<close> is.
\<close>

theorem reserved_symbol_excluded_witness:
  "usesCrypto (elfImage False [\<lparr>Name = ''crypto/sha256.block'', Section = SHN_ABS\<rparr>]) = Inr False
   \<and> usesCrypto (elfImage False [cryptoSymbol]) = Inr True
   \<and> (validateCgoInit (elfImage False [\<lparr>Name = ''_cgo_init'', Section = SHN_COMMON\<rparr>])
        :: panic + (nat \<times> nat \<times> nat) reason list) = Inr [MissingCgoInit]
   \<and> validateGoSymbols plain_semver
        (elfImage False [\<lparr>Name = ''vendor/github.com/golang-fips/openssl/v2.dlopen'', Section = SHN_ABS\<rparr>])
        (1, 23, 0)
       = Inr [MissingRequiredSymbol ''vendor/github.com/golang-fips/openssl/v2.dlopen'']"
proof -
  have h: "SHN_LORESERVE \<le> Section \<lparr>Name = n, Section = SHN_ABS\<rparr>" for n
    by (simp add: SHN_LORESERVE_def SHN_ABS_def)
  have k: "SHN_LORESERVE \<le> Section \<lparr>Name = n, Section = SHN_COMMON\<rparr>" for n
    by (simp add: SHN_LORESERVE_def SHN_COMMON_def)
  show ?thesis
    using reserved_symbol_excluded [OF h, where info = "elfImage False []" and pre = "[]" and post = "[]"
        and lib = plain_semver and v = "(1, 23, 0)", of "''crypto/sha256.block''"]
      reserved_symbol_excluded [OF k, where info = "elfImage False []" and pre = "[]" and post = "[]"
        and lib = plain_semver and v = "(1, 23, 0)", of "''_cgo_init''"]
      reserved_symbol_excluded [OF h, where info = "elfImage False []" and pre = "[]" and post = "[]"
        and lib = plain_semver and v = "(1, 23, 0)",
        of "''vendor/github.com/golang-fips/openssl/v2.dlopen''"]
    by (simp add: eval_defs sublist_code)
qed

text \<open>
  An undefined symbol is not passed over: its index 0 is below the reserved range, the
  loop looks it up in section 0, whose name is empty and so is not \<open>.bss\<close>, and the
  crypto gate opens on it alone.
\<close>

theorem undefined_symbol_counterexample:
  "Section undefinedCrypto = SHN_UNDEF
   \<and> usesCrypto (elfImage False [undefinedCrypto]) = Inr True
   \<and> usesCrypto (elfImage False []) = Inr False"
  by (simp add: undefinedCrypto_def eval_defs sublist_code)

text \<open>
  A negative index would pass both guards and panic. No symbol table gives one: the
  index is read from an unsigned field.
\<close>

lemma negative_index_panics:
  "usesCrypto (elfImage False [\<lparr>Name = ''crypto.x'', Section = - 1\<rparr>])
     = Inl (IndexOutOfRange (- 1) 3)"
  by (simp add: eval_defs)

text \<open>
  C3. The correlation of symbols with sections never indexes the section table out of
  bounds. On every image whose symbols have the indices an ELF symbol table can hold
  (none negative), none of the three checks panics. A symbol whose index is in the
  reserved range, or not below the number of sections, has no owning section, and each
  loop passes over it without indexing the table.
\<close>

theorem correlation_in_bounds:
  "(sectionsNonNegative info \<longrightarrow>
      (\<exists>uses. usesCrypto info = Inr uses)
      \<and> (\<exists>errs. (validateCgoInit info :: panic + 'v reason list) = Inr errs)
      \<and> (\<exists>errs. validateGoSymbols (lib :: 'v semver) info v = Inr errs))
   \<and> (SHN_LORESERVE \<le> Section symb \<or> int (length secs) \<le> Section symb \<longrightarrow>
      owningSection secs symb = None
      \<and> usesCrypto_loop secs (symb # syms) = usesCrypto_loop secs syms
      \<and> (validateCgoInit_loop secs (symb # syms) :: panic + 'v reason list)
          = validateCgoInit_loop secs syms
      \<and> symbolFound secs rs (symb # syms) = symbolFound secs rs syms)"
proof -
  have a: "\<exists>uses. usesCrypto info = Inr uses" if "sectionsNonNegative info"
    using that by (simp add: usesCrypto_spec)
  have b: "\<exists>errs. (validateCgoInit info :: panic + 'v reason list) = Inr errs"
    if "sectionsNonNegative info"
    using that by (simp add: validateCgoInit_spec)
  have c: "\<exists>errs. validateGoSymbols lib info v = Inr errs" if "sectionsNonNegative info"
    using that by (simp add: validateGoSymbols_def Let_def requiredSymbols_loop_spec)
  have d: "owningSection secs symb = None"
    if "SHN_LORESERVE \<le> Section symb \<or> int (length secs) \<le> Section symb"
    using that by (auto simp: owningSection_def)
  from a b c d show ?thesis by simp
qed

theorem correlation_in_bounds_witness:
  "sectionsNonNegative mixedImage
   \<and> usesCrypto mixedImage = Inr False
   \<and> owningSection (Sections mixedImage) \<lparr>Name = ''crypto.far'', Section = 3\<rparr> = None"
proof -
  have h: "sectionsNonNegative mixedImage"
    by (simp add: sectionsNonNegative_def mixedImage_def elfImage_def SHN_ABS_def)
  have k: "SHN_LORESERVE \<le> Section \<lparr>Name = ''crypto.far'', Section = 3\<rparr>
           \<or> int (length (Sections mixedImage)) \<le> Section \<lparr>Name = ''crypto.far'', Section = 3\<rparr>"
    by (simp add: mixedImage_def elfImage_def)
  from correlation_in_bounds [where info = mixedImage and lib = plain_semver and v = "(1, 23, 0)"
      and symb = "\<lparr>Name = ''crypto.far'', Section = 3\<rparr>" and secs = "Sections mixedImage"] h k
  show ?thesis
    by (simp add: mixedImage_def eval_defs sublist_code)
qed

section \<open>The checks on a Go binary\<close>

text \<open>
  C4 (as the code has it). For a recognised binary that uses crypto and has build
  information whose toolchain version does not parse, the parse failure is added as an
  error and none of the checks on a Go binary runs: neither the cgo setting, the
  cgo-init symbol and the required symbols, nor the build tags and the experiment flags.
  The errors are the static-link error, if the binary is statically linked, and the
  parse failure.
\<close>

theorem unparsable_version_skips_go_checks:
  assumes "IsElf ei" and "usesCrypto ei = Inr True"
    and "NewVersion lib (goVersionText (GoVersion bi)) = Inl err"
  shows "ValidateBinary lib (Inr ei) (Inr bi) =
           Inr (Failed (validateNotStaticallyLinked ei @ [GoVersionParseFailure (GoVersion bi) err]),
                False)"
  using assms by (simp add: ValidateBinary_def collectErrors_def)

theorem unparsable_version_skips_go_checks_witness:
  "ValidateBinary plain_semver (Inr (elfImage True [cryptoSymbol])) (Inr candidateBuild) =
     Inr (Failed [StaticallyLinked, GoVersionParseFailure ''go1.23rc1'' ''Invalid Semantic Version''],
          False)"
proof -
  have a: "IsElf (elfImage True [cryptoSymbol])"
    by (simp add: elfImage_def)
  have b: "usesCrypto (elfImage True [cryptoSymbol]) = Inr True"
    by (simp add: eval_defs sublist_code)
  have c: "NewVersion plain_semver (goVersionText (GoVersion candidateBuild))
             = Inl ''Invalid Semantic Version''"
    by (simp add: candidateBuild_def eval_defs)
  from unparsable_version_skips_go_checks [OF a b c] show ?thesis
    by (simp add: validateNotStaticallyLinked_def elfImage_def candidateBuild_def buildInfo_def)
qed

text \<open>
  A build with the release candidate \<open>go1.23rc1\<close>, the forbidden tag and an experiment
  setting without the token: the check of tags and experiment flags would give two
  errors, and the validation gives the parse failure alone.
\<close>

theorem unparsable_version_counterexample:
  "validateGoTagsAndExperiment candidateBuild
     = ([ForbiddenBuildTag ''no_openssl'', MissingGoExperiment] :: (nat \<times> nat \<times> nat) reason list)
   \<and> ValidateBinary plain_semver (Inr compliantImage) (Inr candidateBuild) =
       Inr (Failed [GoVersionParseFailure ''go1.23rc1'' ''Invalid Semantic Version''], False)"
  by (simp add: example_defs eval_defs sublist_code)

text \<open>
  C5. The experiment flags must hold the token \<open>strictfipsruntime\<close>, also when the build
  has no \<open>GOEXPERIMENT\<close> setting at all. The code does not report that case: for the
  build below, without the setting, the check of tags and experiment flags gives no
  error, and the binary, which meets every other rule, validates.
\<close>

theorem absent_experiment_setting_passes:
  "setting flaglessBuild ''GOEXPERIMENT'' = None
   \<and> validateGoTagsAndExperiment flaglessBuild = ([] :: (nat \<times> nat \<times> nat) reason list)
   \<and> ValidateBinary plain_semver (Inr compliantImage) (Inr flaglessBuild) = Inr (Succeeded, True)"
  by (simp add: example_defs eval_defs sublist_code)

text \<open>
  C6. A dynamically linked binary that uses crypto, built with Go 1.23.0, with the
  cgo-init symbol and with experiment flags that hold the token, but with
  \<open>CGO_ENABLED=0\<close>, with the forbidden build tag and without the symbol required from
  Go 1.23 on, fails with exactly three errors, one for each violation, in the order of
  the checks.
\<close>

theorem three_violations_three_reasons:
  assumes img: "IsElf ei" "\<not> IsStatic ei" "sectionsNonNegative ei"
    and crypto: "hasSymbol ei (\<lambda>n. strings_Contains n ''crypto'')"
    and version: "goVersionText (GoVersion bi) = ''1.23.0''"
      "NewVersion (lib :: 'v semver) ''1.23.0'' = Inr v" "Check lib ''>= 1.23'' v"
    and keys: "distinctKeys bi"
    and cgo: "setting bi ''CGO_ENABLED'' = Some ''0''"
    and tags: "setting bi ''-tags'' = Some tags" "''no_openssl'' \<in> set (strings_Split tags (CHR '',''))"
    and goexp: "setting bi ''GOEXPERIMENT'' = Some e" "strings_Contains e ''strictfipsruntime''"
    and cgoInit: "hasSymbol ei (\<lambda>n. n = ''_cgo_init'' \<or> n = ''_cgo_topofstack'')"
    and dlopen: "\<not> hasSymbol ei (\<lambda>n. n = ''vendor/github.com/golang-fips/openssl/v2.dlopen'')"
  shows "ValidateBinary lib (Inr ei) (Inr bi) =
           Inr (Failed [NotCgoEnabled,
                        MissingRequiredSymbol ''vendor/github.com/golang-fips/openssl/v2.dlopen'',
                        ForbiddenBuildTag ''no_openssl''], False)
         \<and> length [NotCgoEnabled,
                    MissingRequiredSymbol ''vendor/github.com/golang-fips/openssl/v2.dlopen'',
                    ForbiddenBuildTag ''no_openssl'' :: 'v reason] = 3"
proof -
  have a: "validateCgoEnabled bi = ([NotCgoEnabled] :: 'v reason list)"
    using keys cgo
    by (simp add: validateCgoEnabled_def distinctKeys_def setting_def validateCgoEnabled_loop_spec)
  have b: "validateCgoInit ei = (Inr [] :: panic + 'v reason list)"
    using img(3) cgoInit by (simp add: validateCgoInit_spec)
  have c: "validateGoSymbols lib ei v =
             Inr [MissingRequiredSymbol ''vendor/github.com/golang-fips/openssl/v2.dlopen'']"
    using img(3) version(3) dlopen
    by (simp add: validateGoSymbols_def requiredSymbolsForGoVersions_def requiredSymbols_loop_spec
        del: requiredSymbols_loop.simps)
  have d: "validateGoTagsAndExperiment bi = ([ForbiddenBuildTag ''no_openssl''] :: 'v reason list)"
    using keys tags goexp
    by (simp add: validateGoTagsAndExperiment_def distinctKeys_def setting_def buildTags_loop_spec
        experiment_loop_spec slices_Contains_def)
  have e: "collectErrors lib ei (Inr bi) =
             Inr [NotCgoEnabled,
                  MissingRequiredSymbol ''vendor/github.com/golang-fips/openssl/v2.dlopen'',
                  ForbiddenBuildTag ''no_openssl'']"
    using img(2) version(1,2)
    by (simp add: collectErrors_def validateNotStaticallyLinked_def a b c d)
  show ?thesis
    using img(1,3) crypto by (simp add: ValidateBinary_def usesCrypto_spec e)
qed

text \<open>
  The binary with the three violations, and beside it the binary that meets every rule
  and validates.
\<close>

theorem three_violations_three_reasons_witness:
  "ValidateBinary plain_semver (Inr violatingImage) (Inr violatingBuild) =
     Inr (Failed [NotCgoEnabled,
                  MissingRequiredSymbol ''vendor/github.com/golang-fips/openssl/v2.dlopen'',
                  ForbiddenBuildTag ''no_openssl''], False)
   \<and> ValidateBinary plain_semver (Inr compliantImage) (Inr compliantBuild) = Inr (Succeeded, True)"
proof -
  have "ValidateBinary plain_semver (Inr violatingImage) (Inr violatingBuild) =
     Inr (Failed [NotCgoEnabled,
                  MissingRequiredSymbol ''vendor/github.com/golang-fips/openssl/v2.dlopen'',
                  ForbiddenBuildTag ''no_openssl''], False)"
    by (rule conjunct1 [OF three_violations_three_reasons
          [where v = "(1, 23, 0)" and tags = "''netgo,no_openssl''" and e = "''strictfipsruntime''"]])
       (simp_all add: example_defs eval_defs sublist_code)
  moreover have "ValidateBinary plain_semver (Inr compliantImage) (Inr compliantBuild)
                   = Inr (Succeeded, True)"
    by (simp add: example_defs eval_defs sublist_code)
  ultimately show ?thesis by simp
qed

text \<open>
  C8. When no entry of the table of required symbols accepts the parsed toolchain
  version, the required-symbol check gives the one error that the version is not
  supported and does not look at the symbol table at all, whatever the image; for a
  recognised binary that uses crypto the validation fails with that error among the
  errors of the other checks, none of which is an error for a missing required symbol.
\<close>

theorem unsupported_version_reason:
  assumes "\<forall>req\<in>set requiredSymbolsForGoVersions. \<not> Check lib (versions req) v"
  shows "validateGoSymbols (lib :: 'v semver) info v = Inr [UnsupportedGoVersion v]
       \<and> (IsElf info \<and> usesCrypto info = Inr True
            \<and> NewVersion lib (goVersionText (GoVersion bi)) = Inr v
            \<and> validateCgoInit info = Inr cgoInit \<longrightarrow>
          ValidateBinary lib (Inr info) (Inr bi) =
            Inr (Failed (validateNotStaticallyLinked info @ validateCgoEnabled bi @ cgoInit
                         @ [UnsupportedGoVersion v] @ validateGoTagsAndExperiment bi), False)
          \<and> (\<forall>rs. MissingRequiredSymbol rs \<notin>
                set (validateNotStaticallyLinked info @ validateCgoEnabled bi @ cgoInit
                     @ validateGoTagsAndExperiment bi :: 'v reason list)))"
proof -
  have a: "validateGoSymbols lib info v = Inr [UnsupportedGoVersion v]"
    using assms by (simp add: validateGoSymbols_def selectRequirements_none)
  have b: "ValidateBinary lib (Inr info) (Inr bi) =
            Inr (Failed (validateNotStaticallyLinked info @ validateCgoEnabled bi @ cgoInit
                         @ [UnsupportedGoVersion v] @ validateGoTagsAndExperiment bi), False)"
    if "IsElf info" "usesCrypto info = Inr True"
      "NewVersion lib (goVersionText (GoVersion bi)) = Inr v" "validateCgoInit info = Inr cgoInit"
    using that by (simp add: ValidateBinary_def collectErrors_def a)
  have c: "\<forall>rs. MissingRequiredSymbol rs \<notin>
                set (validateNotStaticallyLinked info @ validateCgoEnabled bi @ cgoInit
                     @ validateGoTagsAndExperiment bi :: 'v reason list)"
    if "validateCgoInit info = Inr cgoInit"
    using other_checks_reasons [OF that] by blast
  from a b c show ?thesis by blast
qed

text \<open>
  Go 1.22.5 on the image without the required symbol: the version is reported, the
  missing symbol is not.
\<close>

theorem unsupported_version_reason_witness:
  "validateGoSymbols plain_semver violatingImage (1, 22, 5) = Inr [UnsupportedGoVersion (1, 22, 5)]
   \<and> ValidateBinary plain_semver (Inr violatingImage)
        (Inr (buildInfo ''go1.22.5'' [(''CGO_ENABLED'', ''1'')])) =
      Inr (Failed [UnsupportedGoVersion (1, 22, 5)], False)"
proof -
  have h: "\<forall>req\<in>set requiredSymbolsForGoVersions. \<not> Check plain_semver (versions req) (1, 22, 5)"
    by (simp add: requiredSymbolsForGoVersions_def plain_semver_def plain_Check_def)
  have k: "IsElf violatingImage \<and> usesCrypto violatingImage = Inr True
            \<and> NewVersion plain_semver
                (goVersionText (GoVersion (buildInfo ''go1.22.5'' [(''CGO_ENABLED'', ''1'')])))
                = Inr (1, 22, 5)
            \<and> validateCgoInit violatingImage = (Inr [] :: panic + (nat \<times> nat \<times> nat) reason list)"
    by (simp add: example_defs eval_defs sublist_code)
  from unsupported_version_reason [OF h, of violatingImage
      "buildInfo ''go1.22.5'' [(''CGO_ENABLED'', ''1'')]" "[]"] k
  show ?thesis
    by (simp add: example_defs eval_defs)
qed

section \<open>The scan for the crypto library\<close>

text \<open>
  C9. When the scan matches at least one library (a regular file with a fitting name in
  a library directory it lists) and \<open>nm\<close> shows none of the three indicator symbols for
  any matched library, \<open>ValidateOpenSSL\<close> fails with one error for each matched library,
  naming it as not FIPS-capable. When it matches no library, it fails with the one error
  that the library was not found.
\<close>

theorem library_scan_failures:
  "((\<exists>lib. matchedLibrary fs lib) \<and> (\<forall>lib. matchedLibrary fs lib \<longrightarrow> exportsNoFipsSymbol nm lib) \<longrightarrow>
      findCryptoLibs fs \<noteq> []
      \<and> set (findCryptoLibs fs) = {lib. matchedLibrary fs lib}
      \<and> ValidateOpenSSL fs nm = (map NotFIPSCapable (findCryptoLibs fs), False))
   \<and> (\<not> (\<exists>lib. matchedLibrary fs lib) \<longrightarrow>
      ValidateOpenSSL fs nm = ([LibcryptoNotFound], False))"
proof -
  have a: "findCryptoLibs fs \<noteq> []" if "\<exists>lib. matchedLibrary fs lib"
    using that findCryptoLibs_matched [of _ fs] by auto
  have b: "set (findCryptoLibs fs) = {lib. matchedLibrary fs lib}"
    using findCryptoLibs_matched [of _ fs] by auto
  have c: "ValidateOpenSSL fs nm = (map NotFIPSCapable (findCryptoLibs fs), False)"
    if "\<exists>lib. matchedLibrary fs lib" "\<forall>lib. matchedLibrary fs lib \<longrightarrow> exportsNoFipsSymbol nm lib"
  proof -
    from that(2) have "\<forall>lib\<in>set (findCryptoLibs fs). exportsNoFipsSymbol nm lib"
      by (simp add: findCryptoLibs_matched)
    then have "cryptoLibs_loop nm (findCryptoLibs fs) = map NotFIPSCapable (findCryptoLibs fs)"
      by (rule cryptoLibs_loop_none)
    with a [OF that(1)] show ?thesis
      by (simp add: ValidateOpenSSL_def Let_def)
  qed
  have d: "ValidateOpenSSL fs nm = ([LibcryptoNotFound], False)" if "\<not> (\<exists>lib. matchedLibrary fs lib)"
  proof -
    from that have "set (findCryptoLibs fs) = {}"
      using b by simp
    then show ?thesis
      by (simp add: ValidateOpenSSL_def Let_def)
  qed
  from a b c d show ?thesis by blast
qed

text \<open>
  The root with one crypto library without indicator symbols, and the root with none.
\<close>

theorem library_scan_failures_witness:
  "matchedLibrary mergedUsrRoot ''/usr/lib64/libcrypto.so.3.0.7''
   \<and> ValidateOpenSSL mergedUsrRoot plainNm = ([NotFIPSCapable ''/usr/lib64/libcrypto.so.3.0.7''], False)
   \<and> ValidateOpenSSL bareRoot plainNm = ([LibcryptoNotFound], False)"
proof -
  have m: "matchedLibrary mergedUsrRoot ''/usr/lib64/libcrypto.so.3.0.7''"
    by (simp add: scan_defs)
  then have h1: "\<exists>lib. matchedLibrary mergedUsrRoot lib" ..
  have h2: "\<forall>lib. matchedLibrary mergedUsrRoot lib \<longrightarrow> exportsNoFipsSymbol plainNm lib"
    by (simp add: exportsNoFipsSymbol_def plainNm_def sublist_code)
  have h3: "\<not> (\<exists>lib. matchedLibrary bareRoot lib)"
    by (simp add: scan_defs)
  have libs: "findCryptoLibs mergedUsrRoot = [''/usr/lib64/libcrypto.so.3.0.7'']"
    by (simp add: scan_defs)
  from library_scan_failures [of mergedUsrRoot plainNm] h1 h2
  have "ValidateOpenSSL mergedUsrRoot plainNm
          = (map NotFIPSCapable (findCryptoLibs mergedUsrRoot), False)"
    by blast
  moreover from library_scan_failures [of bareRoot plainNm] h3
  have "ValidateOpenSSL bareRoot plainNm = ([LibcryptoNotFound], False)"
    by blast
  ultimately show ?thesis
    using m by (simp add: libs)
qed

text \<open>
  C10. A library directory that is missing, is a symbolic link or cannot be listed is
  passed over without an error. When each of the four directories is such, the scan
  finds no library and \<open>ValidateOpenSSL\<close> fails with the error that the library was not
  found: a compliance failure, not an error of the environment.
\<close>

theorem skipped_directories_not_found:
  "(dirSkipped fs libPath \<longrightarrow>
      findCryptoLibs_loop fs (libPath # rest) = findCryptoLibs_loop fs rest)
   \<and> ((\<forall>libPath\<in>set libPaths. dirSkipped fs libPath) \<longrightarrow>
      findCryptoLibs fs = [] \<and> ValidateOpenSSL fs nm = ([LibcryptoNotFound], False))"
proof -
  have "findCryptoLibs fs = []" if "\<forall>libPath\<in>set libPaths. dirSkipped fs libPath"
    using that by (simp add: findCryptoLibs_def findCryptoLibs_loop_all_skipped)
  then show ?thesis
    by (simp add: findCryptoLibs_loop_skipped ValidateOpenSSL_def Let_def
        del: findCryptoLibs_loop.simps(2))
qed

text \<open>
  Two symbolic links, a directory that cannot be listed and a missing directory: no
  library is found, though \<open>/lib64\<close> leads to one.
\<close>

theorem skipped_directories_not_found_witness:
  "dirSkipped lockedRoot ''/lib64'' \<and> dirSkipped lockedRoot ''/usr/lib64''
   \<and> dirSkipped lockedRoot ''/lib'' \<and> dirSkipped lockedRoot ''/usr/lib''
   \<and> findCryptoLibs lockedRoot = []
   \<and> ValidateOpenSSL lockedRoot plainNm = ([LibcryptoNotFound], False)"
proof -
  have h: "\<forall>libPath\<in>set libPaths. dirSkipped lockedRoot libPath"
    by (simp add: lockedRoot_def libPaths_def dirSkipped_def ModeSymlink_def)
  from skipped_directories_not_found [of lockedRoot _ _ plainNm] h
  have "findCryptoLibs lockedRoot = [] \<and> ValidateOpenSSL lockedRoot plainNm = ([LibcryptoNotFound], False)"
    by blast
  with h show ?thesis
    by (simp add: libPaths_def)
qed

end
